theory Spec2Isabelle
  imports Main
begin

section \<open>beanstalkc: the protocol interaction layer and the Job handle\<close>

text \<open>
  A shallow embedding of \<^verbatim>\<open>beanstalkc.py\<close>. Byte strings are \<open>string\<close>s, Python
  exceptions are values of the datatype \<open>error\<close>, and every method of \<open>Connection\<close>
  is a function from the connection's state to a result and the state afterwards (the
  state is returned on the error path too: an exception does not undo what was sent or
  read before it).
\<close>

subsection \<open>Python values and exceptions\<close>

datatype pyval = PyNone | PyInt int | PyBytes string | PyText string

text \<open>What the injected decoder (\<^verbatim>\<open>_parse_yaml\<close>) may hand back: a \<^verbatim>\<open>dict\<close>,
  the raw bytes (the identity decoder), or a sequence.\<close>

datatype document = Dict "(string \<times> pyval) list" | Raw string | Seq "pyval list"

datatype error =
    SocketError
  | CommandFailed string string "string list"
  | UnexpectedResponse string string "string list"
  | DeadlineSoon "string list"
  | ValueError
  | IndexError
  | KeyError
  | TypeError
  | DecoderError

definition DEFAULT_PRIORITY :: int where
  "DEFAULT_PRIORITY = 2 ^ 31"

definition DEFAULT_TTR :: int where
  "DEFAULT_TTR = 120"

definition CR :: char where
  "CR = CHR 0x0D"

definition LF :: char where
  "LF = CHR 0x0A"

definition CRLF :: string where
  "CRLF = [CR, LF]"

text \<open>Truth value of a Python object, as \<^verbatim>\<open>or\<close> tests it.\<close>

fun truthy :: "pyval \<Rightarrow> bool" where
  "truthy PyNone = False"
| "truthy (PyInt n) = (n \<noteq> 0)"
| "truthy (PyBytes b) = (b \<noteq> [])"
| "truthy (PyText s) = (s \<noteq> [])"

subsection \<open>Bytes: \<^verbatim>\<open>split\<close>, \<^verbatim>\<open>%d\<close> and \<^verbatim>\<open>int\<close>\<close>

text \<open>ASCII whitespace, on which \<^verbatim>\<open>bytes.split()\<close> splits: tab, line feed, vertical tab,
  form feed, carriage return and space.\<close>

definition isspace :: "char \<Rightarrow> bool" where
  "isspace ch = (ch \<in> set [CHR 0x09, CHR 0x0A, CHR 0x0B, CHR 0x0C, CHR 0x0D, CHR 0x20])"

text \<open>\<^verbatim>\<open>bytes.split()\<close>: the maximal runs of non-whitespace bytes, in order. The first
  argument is the token being collected.\<close>

fun tokens :: "string \<Rightarrow> string \<Rightarrow> string list" where
  "tokens acc [] = (if acc = [] then [] else [acc])"
| "tokens acc (ch # cs) =
     (if isspace ch then (if acc = [] then tokens [] cs else acc # tokens [] cs)
      else tokens (acc @ [ch]) cs)"

definition py_split :: "string \<Rightarrow> string list" where
  "py_split s = tokens [] s"

definition digit_char :: "nat \<Rightarrow> char" where
  "digit_char d = char_of (48 + d)"

fun show_nat :: "nat \<Rightarrow> string" where
  "show_nat n = (if n < 10 then [digit_char n] else show_nat (n div 10) @ [digit_char (n mod 10)])"

declare show_nat.simps [simp del]

text \<open>\<^verbatim>\<open>b'%d' % i\<close> for a Python int.\<close>

definition show_int :: "int \<Rightarrow> string" where
  "show_int i = (if i < 0 then CHR ''-'' # show_nat (nat (- i)) else show_nat (nat i))"

text \<open>\<^verbatim>\<open>%d\<close> applied to an arbitrary object: a number is printed, anything else is a
  \<^verbatim>\<open>TypeError\<close>.\<close>

fun fmt_d :: "pyval \<Rightarrow> error + string" where
  "fmt_d (PyInt i) = Inr (show_int i)"
| "fmt_d v = Inl TypeError"

definition isdigit :: "char \<Rightarrow> bool" where
  "isdigit ch = ((48::nat) \<le> of_char ch \<and> of_char ch \<le> (57::nat))"

definition digit_val :: "char \<Rightarrow> nat" where
  "digit_val ch = of_char ch - (48::nat)"

text \<open>The digits of an \<^verbatim>\<open>int\<close> literal: decimal digits, with single underscores allowed
  between two digits. The flag says whether the previous byte was a digit.\<close>

fun int_digits :: "bool \<Rightarrow> nat \<Rightarrow> string \<Rightarrow> nat option" where
  "int_digits d acc [] = (if d then Some acc else None)"
| "int_digits d acc (ch # cs) =
     (if isdigit ch then int_digits True (10 * acc + digit_val ch) cs
      else if ch = CHR ''_'' \<and> d then int_digits False acc cs
      else None)"

definition strip :: "string \<Rightarrow> string" where
  "strip s = rev (dropWhile isspace (rev (dropWhile isspace s)))"

text \<open>\<^verbatim>\<open>int(b)\<close> for a bytes object: surrounding whitespace is ignored, one sign is
  allowed; \<open>None\<close> stands for the \<^verbatim>\<open>ValueError\<close>.\<close>

definition py_int :: "string \<Rightarrow> int option" where
  "py_int s =
     (case strip s of
        [] \<Rightarrow> None
      | ch # cs \<Rightarrow>
          if ch = CHR ''-'' then map_option (\<lambda>n. - int n) (int_digits False 0 cs)
          else if ch = CHR ''+'' then map_option int (int_digits False 0 cs)
          else map_option int (int_digits False 0 (ch # cs)))"

subsection \<open>The transport\<close>

text \<open>
  The socket and its buffered reader: \<open>sent\<close> is everything written so far, \<open>incoming\<close>
  the bytes the peer delivers before it closes the stream, and \<open>fuse\<close> the number of
  socket operations that still succeed before the socket starts raising
  \<^verbatim>\<open>socket.error\<close> (\<open>None\<close>: it never does). \<open>parse_yaml\<close> is the injected decoder.
\<close>

record conn =
  sent :: string
  incoming :: string
  fuse :: "nat option"
  parse_yaml :: "string \<Rightarrow> error + document"

type_synonym 'a io = "conn \<Rightarrow> (error + 'a) \<times> conn"

definition return_io :: "'a \<Rightarrow> 'a io" where
  "return_io x = (\<lambda>c. (Inr x, c))"

definition raise_io :: "error \<Rightarrow> 'a io" where
  "raise_io e = (\<lambda>c. (Inl e, c))"

definition bind_io :: "'a io \<Rightarrow> ('a \<Rightarrow> 'b io) \<Rightarrow> 'b io" where
  "bind_io m f = (\<lambda>c. case m c of (Inl e, c') \<Rightarrow> (Inl e, c') | (Inr x, c') \<Rightarrow> f x c')"

text \<open>\<^verbatim>\<open>try: m except: h\<close>.\<close>

definition catch_io :: "'a io \<Rightarrow> (error \<Rightarrow> 'a io) \<Rightarrow> 'a io" where
  "catch_io m h = (\<lambda>c. case m c of (Inl e, c') \<Rightarrow> h e c' | (Inr x, c') \<Rightarrow> (Inr x, c'))"

definition tick :: "conn \<Rightarrow> conn" where
  "tick c = c\<lparr>fuse := map_option (\<lambda>k. k - 1) (fuse c)\<rparr>"

text \<open>\<^verbatim>\<open>SocketError.wrap(self._socket.sendall, data)\<close>.\<close>

definition sendall :: "string \<Rightarrow> unit io" where
  "sendall data = (\<lambda>c.
     if fuse c = Some 0 then (Inl SocketError, c)
     else (Inr (), tick (c\<lparr>sent := sent c @ data\<rparr>)))"

text \<open>The first line of a stream, with its line feed, and what follows it; the whole
  stream when it holds no line feed.\<close>

fun line_of :: "string \<Rightarrow> string \<times> string" where
  "line_of [] = ([], [])"
| "line_of (ch # cs) =
     (if ch = LF then ([ch], cs) else (case line_of cs of (l, r) \<Rightarrow> (ch # l, r)))"

text \<open>\<^verbatim>\<open>SocketError.wrap(self._socket_file.readline)\<close>.\<close>

definition readline :: "string io" where
  "readline = (\<lambda>c.
     if fuse c = Some 0 then (Inl SocketError, c)
     else (case line_of (incoming c) of
             (l, r) \<Rightarrow> (Inr l, tick (c\<lparr>incoming := r\<rparr>))))"

text \<open>\<^verbatim>\<open>SocketError.wrap(self._socket_file.read, size)\<close> on the buffered reader: \<open>-1\<close>
  reads to the end of the stream, a size below \<open>-1\<close> is a \<^verbatim>\<open>ValueError\<close> of the
  reader (which is not a \<^verbatim>\<open>socket.error\<close>, so it is not wrapped).\<close>

definition read :: "int \<Rightarrow> string io" where
  "read sz = (\<lambda>c.
     if sz < - 1 then (Inl ValueError, c)
     else if fuse c = Some 0 then (Inl SocketError, c)
     else if sz = - 1 then (Inr (incoming c), tick (c\<lparr>incoming := []\<rparr>))
     else (Inr (take (nat sz) (incoming c)),
           tick (c\<lparr>incoming := drop (nat sz) (incoming c)\<rparr>)))"

subsection \<open>The protocol interaction engine\<close>

definition read_response :: "(string \<times> string list) io" where
  "read_response =
     bind_io readline (\<lambda>line.
       if line = [] then raise_io SocketError
       else (case py_split line of
               [] \<Rightarrow> raise_io IndexError
             | status # results \<Rightarrow> return_io (status, results)))"

text \<open>\<^verbatim>\<open>command.split()[0]\<close>.\<close>

definition verb_of :: "string \<Rightarrow> error + string" where
  "verb_of command = (case py_split command of [] \<Rightarrow> Inl IndexError | v # _ \<Rightarrow> Inr v)"

definition interact :: "string \<Rightarrow> string list \<Rightarrow> string list \<Rightarrow> string list io" where
  "interact command expected_ok expected_err =
     bind_io (sendall command) (\<lambda>_.
     bind_io read_response (\<lambda>(status, results).
       if status \<in> set expected_ok then return_io results
       else if status \<in> set expected_err then
         (case verb_of command of
            Inl e \<Rightarrow> raise_io e
          | Inr v \<Rightarrow> raise_io (CommandFailed v status results))
       else
         (case verb_of command of
            Inl e \<Rightarrow> raise_io e
          | Inr v \<Rightarrow> raise_io (UnexpectedResponse v status results))))"

definition read_body :: "int \<Rightarrow> string io" where
  "read_body sz =
     bind_io (read sz) (\<lambda>body.
     bind_io (read 2) (\<lambda>_.
       if sz > 0 \<and> body = [] then raise_io SocketError
       else return_io body))"

definition interact_value :: "string \<Rightarrow> string list \<Rightarrow> string list \<Rightarrow> string io" where
  "interact_value command expected_ok expected_err =
     bind_io (interact command expected_ok expected_err) (\<lambda>results.
       case results of [] \<Rightarrow> raise_io IndexError | v # _ \<Rightarrow> return_io v)"

text \<open>\<^verbatim>\<open>int(b)\<close> inside a method: the \<^verbatim>\<open>ValueError\<close> leaves the connection as it is.\<close>

definition int_io :: "string \<Rightarrow> int io" where
  "int_io b = (case py_int b of None \<Rightarrow> raise_io ValueError | Some i \<Rightarrow> return_io i)"

text \<open>A \<^verbatim>\<open>Job\<close>; its back-reference to the connection is the connection state that the
  Job methods below take and return.\<close>

record job =
  jid :: int
  body :: string
  reserved :: bool

definition interact_job ::
  "string \<Rightarrow> string list \<Rightarrow> string list \<Rightarrow> bool \<Rightarrow> job io" where
  "interact_job command expected_ok expected_err rsv =
     bind_io (interact command expected_ok expected_err) (\<lambda>results.
       case results of
         [j, sz] \<Rightarrow>
           bind_io (int_io sz) (\<lambda>n.
           bind_io (read_body n) (\<lambda>b.
           bind_io (int_io j) (\<lambda>i.
             return_io \<lparr>jid = i, body = b, reserved = rsv\<rparr>)))
       | _ \<Rightarrow> raise_io ValueError)"

definition interact_yaml :: "string \<Rightarrow> string list \<Rightarrow> string list \<Rightarrow> document io" where
  "interact_yaml command expected_ok expected_err =
     bind_io (interact command expected_ok expected_err) (\<lambda>results.
       case results of
         [sz] \<Rightarrow>
           bind_io (int_io sz) (\<lambda>n.
           bind_io (read_body n) (\<lambda>b c.
             case parse_yaml c b of Inl e \<Rightarrow> (Inl e, c) | Inr d \<Rightarrow> (Inr d, c)))
       | _ \<Rightarrow> raise_io ValueError)"

definition is_CommandFailed :: "error \<Rightarrow> bool" where
  "is_CommandFailed e = (case e of CommandFailed v s r \<Rightarrow> True | _ \<Rightarrow> False)"

definition interact_peek :: "string \<Rightarrow> job option io" where
  "interact_peek command =
     catch_io
       (bind_io (interact_job command [''FOUND''] [''NOT_FOUND''] False) (\<lambda>j.
          return_io (Some j)))
       (\<lambda>e. if is_CommandFailed e then return_io None else raise_io e)"

subsection \<open>The public interface of \<^verbatim>\<open>Connection\<close>\<close>

text \<open>The arguments that the source checks with \<^verbatim>\<open>isinstance(_, bytes)\<close> are \<open>pyval\<close>s;
  job ids, delays and timeouts are Python ints.\<close>

definition put :: "pyval \<Rightarrow> int \<Rightarrow> int \<Rightarrow> int \<Rightarrow> int io" where
  "put payload priority delay ttr =
     (case payload of
        PyBytes b \<Rightarrow>
          bind_io
            (interact_value
               (''put '' @ show_int priority @ '' '' @ show_int delay @ '' '' @ show_int ttr
                  @ '' '' @ show_int (int (length b)) @ CRLF @ b @ CRLF)
               [''INSERTED'']
               [''JOB_TOO_BIG'', ''BURIED'', ''DRAINING''])
            int_io
      | _ \<Rightarrow> raise_io ValueError)"

definition reserve_command :: "int option \<Rightarrow> string" where
  "reserve_command timeout =
     (case timeout of
        Some t \<Rightarrow> ''reserve-with-timeout '' @ show_int t @ CRLF
      | None \<Rightarrow> ''reserve'' @ CRLF)"

text \<open>The handler of \<^verbatim>\<open>reserve\<close>: only \<^verbatim>\<open>CommandFailed\<close> is caught; a status that is
  neither of the two falls off the end of the method, which returns \<^verbatim>\<open>None\<close>.\<close>

definition reserve_handler :: "error \<Rightarrow> job option io" where
  "reserve_handler e =
     (case e of
        CommandFailed v status results \<Rightarrow>
          if status = ''TIMED_OUT'' then return_io None
          else if status = ''DEADLINE_SOON'' then raise_io (DeadlineSoon results)
          else return_io None
      | _ \<Rightarrow> raise_io e)"

definition reserve :: "int option \<Rightarrow> job option io" where
  "reserve timeout =
     catch_io
       (bind_io
          (interact_job (reserve_command timeout) [''RESERVED'']
             [''DEADLINE_SOON'', ''TIMED_OUT''] True)
          (\<lambda>j. return_io (Some j)))
       reserve_handler"

definition peek :: "int \<Rightarrow> job option io" where
  "peek i = interact_peek (''peek '' @ show_int i @ CRLF)"




definition ignore :: "pyval \<Rightarrow> int io" where
  "ignore name =
     (case name of
        PyBytes b \<Rightarrow>
          catch_io
            (bind_io
               (interact_value (''ignore '' @ b @ CRLF) [''WATCHING''] [''NOT_IGNORED''])
               int_io)
            (\<lambda>e. if is_CommandFailed e then return_io 1 else raise_io e)
      | _ \<Rightarrow> raise_io ValueError)"

text \<open>The job interactors of \<^verbatim>\<open>Connection\<close>; each returns \<^verbatim>\<open>None\<close>.\<close>

definition Connection_delete :: "int \<Rightarrow> unit io" where
  "Connection_delete i =
     bind_io (interact (''delete '' @ show_int i @ CRLF) [''DELETED''] [''NOT_FOUND''])
       (\<lambda>_. return_io ())"

text \<open>The priority may come out of a decoded stats document, so it is any Python value:
  \<^verbatim>\<open>%d\<close> raises \<^verbatim>\<open>TypeError\<close> for a value that is not a number, before anything is
  sent.\<close>

definition Connection_release :: "int \<Rightarrow> pyval \<Rightarrow> int \<Rightarrow> unit io" where
  "Connection_release i priority delay =
     (case fmt_d priority of
        Inl e \<Rightarrow> raise_io e
      | Inr p \<Rightarrow>
          bind_io
            (interact (''release '' @ show_int i @ '' '' @ p @ '' '' @ show_int delay @ CRLF)
               [''RELEASED'', ''BURIED''] [''NOT_FOUND''])
            (\<lambda>_. return_io ()))"

definition Connection_bury :: "int \<Rightarrow> pyval \<Rightarrow> unit io" where
  "Connection_bury i priority =
     (case fmt_d priority of
        Inl e \<Rightarrow> raise_io e
      | Inr p \<Rightarrow>
          bind_io
            (interact (''bury '' @ show_int i @ '' '' @ p @ CRLF) [''BURIED''] [''NOT_FOUND''])
            (\<lambda>_. return_io ()))"

definition Connection_touch :: "int \<Rightarrow> unit io" where
  "Connection_touch i =
     bind_io (interact (''touch '' @ show_int i @ CRLF) [''TOUCHED''] [''NOT_FOUND''])
       (\<lambda>_. return_io ())"

definition stats_job :: "int \<Rightarrow> document io" where
  "stats_job i = interact_yaml (''stats-job '' @ show_int i @ CRLF) [''OK''] [''NOT_FOUND'']"

subsection \<open>\<^verbatim>\<open>Job\<close>\<close>

text \<open>A method of \<^verbatim>\<open>Job\<close> takes the Job and the state of its connection and returns the
  result with both afterwards.\<close>

type_synonym 'a job_io = "job \<Rightarrow> conn \<Rightarrow> (error + 'a) \<times> job \<times> conn"

definition Job_stats :: "job \<Rightarrow> document io" where
  "Job_stats j = stats_job (jid j)"

definition Job_priority :: "job \<Rightarrow> pyval io" where
  "Job_priority j =
     bind_io (Job_stats j) (\<lambda>stats.
       case stats of
         Dict d \<Rightarrow> (case map_of d ''pri'' of None \<Rightarrow> raise_io KeyError | Some v \<Rightarrow> return_io v)
       | _ \<Rightarrow> return_io (PyInt DEFAULT_PRIORITY))"

definition Job_delete :: "unit job_io" where
  "Job_delete j c =
     (case Connection_delete (jid j) c of
        (Inl e, c') \<Rightarrow> (Inl e, j, c')
      | (Inr _, c') \<Rightarrow> (Inr (), j\<lparr>reserved := False\<rparr>, c'))"

text \<open>\<^verbatim>\<open>priority or self._priority()\<close>.\<close>

definition priority_or :: "pyval \<Rightarrow> job \<Rightarrow> pyval io" where
  "priority_or priority j = (if truthy priority then return_io priority else Job_priority j)"

definition Job_release :: "pyval \<Rightarrow> int \<Rightarrow> unit job_io" where
  "Job_release priority delay j c =
     (if reserved j then
        (case bind_io (priority_or priority j) (\<lambda>p. Connection_release (jid j) p delay) c of
           (Inl e, c') \<Rightarrow> (Inl e, j, c')
         | (Inr _, c') \<Rightarrow> (Inr (), j\<lparr>reserved := False\<rparr>, c'))
      else (Inr (), j, c))"

definition Job_bury :: "pyval \<Rightarrow> unit job_io" where
  "Job_bury priority j c =
     (if reserved j then
        (case bind_io (priority_or priority j) (\<lambda>p. Connection_bury (jid j) p) c of
           (Inl e, c') \<Rightarrow> (Inl e, j, c')
         | (Inr _, c') \<Rightarrow> (Inr (), j\<lparr>reserved := False\<rparr>, c'))
      else (Inr (), j, c))"

definition Job_touch :: "unit job_io" where
  "Job_touch j c =
     (if reserved j then
        (case Connection_touch (jid j) c of
           (Inl e, c') \<Rightarrow> (Inl e, j, c')
         | (Inr _, c') \<Rightarrow> (Inr (), j, c'))
      else (Inr (), j, c))"

subsection \<open>Connections and replies used in the statements\<close>

text \<open>The identity decoder, \<^verbatim>\<open>lambda x: x\<close>, which \<^verbatim>\<open>Connection\<close> installs when no
  decoder is configured.\<close>

definition identity_decoder :: "string \<Rightarrow> error + document" where
  "identity_decoder b = Inr (Raw b)"

text \<open>A fresh connection whose socket never fails and whose peer will deliver the given
  bytes.\<close>

definition fresh :: "string \<Rightarrow> conn" where
  "fresh bytes = \<lparr>sent = [], incoming = bytes, fuse = None, parse_yaml = identity_decoder\<rparr>"

text \<open>The tokens of the next line the peer delivers: the status token and its arguments,
  as \<^verbatim>\<open>_read_response\<close> will see them.\<close>

definition next_reply :: "conn \<Rightarrow> string list" where
  "next_reply c = py_split (fst (line_of (incoming c)))"

subsection \<open>The peer of the round trip\<close>

text \<open>Modelled from the spec: the daemon is the external peer, not code of the client. The
  round-trip property is stated against a daemon that stores and returns jobs faithfully;
  these two definitions say what that is on the wire, following the protocol table (a put
  frame is \<^verbatim>\<open>put pri delay ttr bytes\r\n<body>\r\n\<close>, a reservation is answered with
  \<^verbatim>\<open>RESERVED id bytes\r\n<body>\r\n\<close>). \<open>daemon_put_body\<close> is the body that the daemon
  takes out of one put frame: the declared number of bytes after the command line, which
  must be followed by the two trailer bytes.\<close>

definition daemon_put_body :: "string \<Rightarrow> string option" where
  "daemon_put_body frame =
     (case line_of frame of
        (l, r) \<Rightarrow>
          (case py_split l of
             [v, p, d, t, n] \<Rightarrow>
               (if v = ''put'' then
                  (case py_int n of
                     Some k \<Rightarrow>
                       if 0 \<le> k \<and> drop (nat k) r = CRLF then Some (take (nat k) r) else None
                   | None \<Rightarrow> None)
                else None)
           | _ \<Rightarrow> None))"

text \<open>What a faithful daemon sends back for a put frame followed by a reserve, when it
  gives the job the id \<open>i\<close>: the acknowledgement, then the stored body with its length.\<close>

definition faithful_daemon :: "string \<Rightarrow> int \<Rightarrow> string" where
  "faithful_daemon frame i =
     (case daemon_put_body frame of
        Some b \<Rightarrow>
          ''INSERTED '' @ show_int i @ CRLF
            @ ''RESERVED '' @ show_int i @ '' '' @ show_int (int (length b)) @ CRLF @ b @ CRLF
      | None \<Rightarrow> ''BAD_FORMAT'' @ CRLF)"

section \<open>Properties\<close>

subsection \<open>The transport and the monad\<close>

lemma fuse_tick [simp]: "fuse (tick c) = map_option (\<lambda>k. k - 1) (fuse c)"
  and sent_tick [simp]: "sent (tick c) = sent c"
  and incoming_tick [simp]: "incoming (tick c) = incoming c"
  and parse_yaml_tick [simp]: "parse_yaml (tick c) = parse_yaml c"
  by (simp_all add: tick_def)

lemma read_reliable:
  "fuse c = None \<Longrightarrow> 0 \<le> sz \<Longrightarrow>
   read sz c = (Inr (take (nat sz) (incoming c)), tick (c\<lparr>incoming := drop (nat sz) (incoming c)\<rparr>))"
  by (simp add: read_def)

subsection \<open>Reading a body\<close>




subsection \<open>Evaluation on concrete connections\<close>

lemma digit_char_values:
  "digit_char 0 = CHR ''0''" "digit_char 1 = CHR ''1''" "digit_char 2 = CHR ''2''"
  "digit_char 3 = CHR ''3''" "digit_char 4 = CHR ''4''" "digit_char 5 = CHR ''5''"
  "digit_char 6 = CHR ''6''" "digit_char 7 = CHR ''7''" "digit_char 8 = CHR ''8''"
  "digit_char 9 = CHR ''9''" "digit_char (Suc 0) = CHR ''1''"
  by code_simp+

lemmas eval_simps = Job_delete_def Job_release_def Job_bury_def Job_touch_def priority_or_def
  Job_priority_def Job_stats_def stats_job_def Connection_delete_def Connection_release_def
  Connection_bury_def Connection_touch_def interact_yaml_def interact_job_def interact_value_def
  interact_def read_body_def read_response_def readline_def read_def sendall_def bind_io_def
  catch_io_def raise_io_def return_io_def int_io_def verb_of_def py_split_def py_int_def
  strip_def isspace_def isdigit_def digit_val_def digit_char_values show_int_def show_nat.simps
  fresh_def identity_decoder_def CRLF_def CR_def LF_def tick_def DEFAULT_PRIORITY_def
  is_CommandFailed_def

subsection \<open>What a command sends\<close>

lemma read_response_sent: "sent (snd (read_response c)) = sent c"
  by (simp add: read_response_def bind_io_def readline_def raise_io_def return_io_def
      split: prod.splits sum.splits list.splits)

lemma interact_sent:
  "fuse c \<noteq> Some 0 \<Longrightarrow> sent (snd (interact command oks errs c)) = sent c @ command"
proof -
  assume a: "fuse c \<noteq> Some 0"
  have s: "sendall command c = (Inr (), tick (c\<lparr>sent := sent c @ command\<rparr>))"
    using a by (simp add: sendall_def)
  obtain r c2 where rr: "read_response (tick (c\<lparr>sent := sent c @ command\<rparr>)) = (r, c2)"
    by (cases "read_response (tick (c\<lparr>sent := sent c @ command\<rparr>))")
  have "sent c2 = sent c @ command"
    using read_response_sent [of "tick (c\<lparr>sent := sent c @ command\<rparr>)"] rr by simp
  then show ?thesis
    by (simp add: interact_def bind_io_def s rr raise_io_def return_io_def
        split: sum.splits prod.splits)
qed

subsection \<open>The Job handle\<close>

lemma bind_return_unit_snd: "snd (bind_io m (\<lambda>_. return_io ()) c) = snd (m c)"
  by (simp add: bind_io_def return_io_def split: prod.splits sum.splits)

lemma Job_delete_delegates:
  "fst (Job_delete j c) = fst (Connection_delete (jid j) c)"
  "snd (snd (Job_delete j c)) = snd (Connection_delete (jid j) c)"
  by (cases "Connection_delete (jid j) c"; cases "fst (Connection_delete (jid j) c)";
      simp add: Job_delete_def)+

lemma Job_touch_delegates:
  "reserved j \<Longrightarrow> fst (Job_touch j c) = fst (Connection_touch (jid j) c)"
  "reserved j \<Longrightarrow> snd (snd (Job_touch j c)) = snd (Connection_touch (jid j) c)"
  "fst (snd (Job_touch j c)) = j"
  by (cases "Connection_touch (jid j) c"; cases "fst (Connection_touch (jid j) c)";
      simp add: Job_touch_def)+

lemma Connection_delete_sent:
  "fuse c \<noteq> Some 0 \<Longrightarrow>
   sent (snd (Connection_delete i c)) = sent c @ ''delete '' @ show_int i @ CRLF"
  unfolding Connection_delete_def bind_return_unit_snd by (rule interact_sent)

text \<open>
  C5: on a Job whose \<open>reserved\<close> flag is false, \<^verbatim>\<open>release\<close>, \<^verbatim>\<open>bury\<close> and
  \<^verbatim>\<open>touch\<close> return at once, with the Job and the connection (what was sent, what is
  still to be read) exactly as they were. \<^verbatim>\<open>delete\<close> delegates whatever the flag is:
  its outcome and its effect on the connection are those of \<^verbatim>\<open>Connection.delete\<close> on
  the Job's id, and on a socket that accepts the write the delete command is sent.
  \<^verbatim>\<open>touch\<close> on a reserved Job delegates to \<^verbatim>\<open>Connection.touch\<close> and leaves every field
  of the Job, the flag included, unchanged.
\<close>

theorem unreserved_job_methods:
  "(\<not> reserved j \<longrightarrow> Job_release p d j c = (Inr (), j, c))
   \<and> (\<not> reserved j \<longrightarrow> Job_bury p j c = (Inr (), j, c))
   \<and> (\<not> reserved j \<longrightarrow> Job_touch j c = (Inr (), j, c))
   \<and> fst (Job_delete j c) = fst (Connection_delete (jid j) c)
   \<and> snd (snd (Job_delete j c)) = snd (Connection_delete (jid j) c)
   \<and> (fuse c \<noteq> Some 0 \<longrightarrow>
        sent (snd (snd (Job_delete j c))) = sent c @ ''delete '' @ show_int (jid j) @ CRLF)
   \<and> (reserved j \<longrightarrow> fst (Job_touch j c) = fst (Connection_touch (jid j) c)
        \<and> snd (snd (Job_touch j c)) = snd (Connection_touch (jid j) c)
        \<and> fst (snd (Job_touch j c)) = j)"
proof -
  have r: "\<not> reserved j \<longrightarrow> Job_release p d j c = (Inr (), j, c)"
    by (simp add: Job_release_def)
  have b: "\<not> reserved j \<longrightarrow> Job_bury p j c = (Inr (), j, c)"
    by (simp add: Job_bury_def)
  have t: "\<not> reserved j \<longrightarrow> Job_touch j c = (Inr (), j, c)"
    by (simp add: Job_touch_def)
  have s: "fuse c \<noteq> Some 0 \<longrightarrow>
        sent (snd (snd (Job_delete j c))) = sent c @ ''delete '' @ show_int (jid j) @ CRLF"
    using Connection_delete_sent [of c "jid j"] by (simp add: Job_delete_delegates)
  show ?thesis
    using r b t s Job_delete_delegates [of j c] Job_touch_delegates [of j c] by blast
qed

text \<open>
  C10: when \<^verbatim>\<open>Job.delete\<close>, \<^verbatim>\<open>Job.release\<close> or \<^verbatim>\<open>Job.bury\<close> ends with an exception,
  whichever it is, the Job is what it was before the call: the \<open>reserved\<close> flag keeps its
  value. (The lemma after the theorem is the other half: the flag is cleared when the
  call returns.)
\<close>

theorem job_flag_kept_on_error:
  "(fst (Job_delete j c) = Inl e \<longrightarrow> fst (snd (Job_delete j c)) = j)
   \<and> (fst (Job_release p d j c) = Inl e \<longrightarrow> fst (snd (Job_release p d j c)) = j)
   \<and> (fst (Job_bury p j c) = Inl e \<longrightarrow> fst (snd (Job_bury p j c)) = j)"
proof -
  have d: "fst (Job_delete j c) = Inl e \<longrightarrow> fst (snd (Job_delete j c)) = j"
    by (simp add: Job_delete_def split: prod.splits sum.splits)
  have r: "fst (Job_release p d j c) = Inl e \<longrightarrow> fst (snd (Job_release p d j c)) = j"
    by (simp add: Job_release_def split: prod.splits sum.splits)
  have b: "fst (Job_bury p j c) = Inl e \<longrightarrow> fst (snd (Job_bury p j c)) = j"
    by (simp add: Job_bury_def split: prod.splits sum.splits)
  show ?thesis using d r b by blast
qed

lemma job_flag_cleared_on_success:
  "fst (Job_delete j c) = Inr u \<Longrightarrow> fst (snd (Job_delete j c)) = j\<lparr>reserved := False\<rparr>"
  "fst (Job_release p d j c) = Inr u \<Longrightarrow> fst (snd (Job_release p d j c)) = j\<lparr>reserved := False\<rparr>"
  "fst (Job_bury p j c) = Inr u \<Longrightarrow> fst (snd (Job_bury p j c)) = j\<lparr>reserved := False\<rparr>"
  by (cases j; simp add: Job_delete_def Job_release_def Job_bury_def
      split: prod.splits sum.splits if_splits)+


theorem unreserved_job_methods_witness:
  "\<not> reserved \<lparr>jid = 5, body = ''x'', reserved = False\<rparr>
   \<and> Job_release (PyInt 3) 0 \<lparr>jid = 5, body = ''x'', reserved = False\<rparr> (fresh [])
       = (Inr (), \<lparr>jid = 5, body = ''x'', reserved = False\<rparr>, fresh [])
   \<and> Job_bury (PyInt 3) \<lparr>jid = 5, body = ''x'', reserved = False\<rparr> (fresh [])
       = (Inr (), \<lparr>jid = 5, body = ''x'', reserved = False\<rparr>, fresh [])
   \<and> Job_touch \<lparr>jid = 5, body = ''x'', reserved = False\<rparr> (fresh [])
       = (Inr (), \<lparr>jid = 5, body = ''x'', reserved = False\<rparr>, fresh [])
   \<and> fuse (fresh []) \<noteq> Some 0
   \<and> sent (snd (snd (Job_delete \<lparr>jid = 5, body = ''x'', reserved = False\<rparr> (fresh []))))
       = ''delete 5'' @ CRLF
   \<and> reserved \<lparr>jid = 5, body = ''x'', reserved = True\<rparr>
   \<and> fst (snd (Job_touch \<lparr>jid = 5, body = ''x'', reserved = True\<rparr> (fresh (''TOUCHED'' @ CRLF))))
       = \<lparr>jid = 5, body = ''x'', reserved = True\<rparr>"
proof -
  have f: "fuse (fresh []) \<noteq> Some 0"
    by (simp add: fresh_def)
  have n: "\<not> reserved \<lparr>jid = 5, body = ''x'', reserved = False\<rparr>"
    by simp
  have m: "reserved \<lparr>jid = 5, body = ''x'', reserved = True\<rparr>"
    by simp
  have s: "show_int 5 = ''5''"
    by (simp add: show_int_def show_nat.simps digit_char_values)
  have a: "Job_release (PyInt 3) 0 \<lparr>jid = 5, body = ''x'', reserved = False\<rparr> (fresh [])
       = (Inr (), \<lparr>jid = 5, body = ''x'', reserved = False\<rparr>, fresh [])
     \<and> Job_bury (PyInt 3) \<lparr>jid = 5, body = ''x'', reserved = False\<rparr> (fresh [])
       = (Inr (), \<lparr>jid = 5, body = ''x'', reserved = False\<rparr>, fresh [])
     \<and> Job_touch \<lparr>jid = 5, body = ''x'', reserved = False\<rparr> (fresh [])
       = (Inr (), \<lparr>jid = 5, body = ''x'', reserved = False\<rparr>, fresh [])
     \<and> sent (snd (snd (Job_delete \<lparr>jid = 5, body = ''x'', reserved = False\<rparr> (fresh []))))
       = sent (fresh []) @ ''delete '' @ show_int (jid \<lparr>jid = 5, body = ''x'', reserved = False\<rparr>) @ CRLF"
    using f n unreserved_job_methods
      [of "\<lparr>jid = 5, body = ''x'', reserved = False\<rparr>" "PyInt 3" 0 "fresh []"]
    by blast
  have b: "fst (snd (Job_touch \<lparr>jid = 5, body = ''x'', reserved = True\<rparr> (fresh (''TOUCHED'' @ CRLF))))
       = \<lparr>jid = 5, body = ''x'', reserved = True\<rparr>"
    using m unreserved_job_methods
      [of "\<lparr>jid = 5, body = ''x'', reserved = True\<rparr>" "PyInt 3" 0 "fresh (''TOUCHED'' @ CRLF)"]
    by blast
  have e: "sent (fresh []) = []"
    by (simp add: fresh_def)
  show ?thesis
    using a b f by (simp add: s e)
qed

theorem job_flag_kept_on_error_witness:
  "fst (Job_delete \<lparr>jid = 5, body = ''x'', reserved = True\<rparr> (fresh (''NOT_FOUND'' @ CRLF)))
     = Inl (CommandFailed ''delete'' ''NOT_FOUND'' [])
   \<and> fst (snd (Job_delete \<lparr>jid = 5, body = ''x'', reserved = True\<rparr> (fresh (''NOT_FOUND'' @ CRLF))))
     = \<lparr>jid = 5, body = ''x'', reserved = True\<rparr>
   \<and> fst (Job_release (PyInt 3) 0 \<lparr>jid = 5, body = ''x'', reserved = True\<rparr> (fresh (''FOO'' @ CRLF)))
     = Inl (UnexpectedResponse ''release'' ''FOO'' [])
   \<and> fst (snd (Job_release (PyInt 3) 0 \<lparr>jid = 5, body = ''x'', reserved = True\<rparr> (fresh (''FOO'' @ CRLF))))
     = \<lparr>jid = 5, body = ''x'', reserved = True\<rparr>
   \<and> fst (Job_bury (PyInt 3) \<lparr>jid = 5, body = ''x'', reserved = True\<rparr> (fresh []))
     = Inl SocketError
   \<and> fst (snd (Job_bury (PyInt 3) \<lparr>jid = 5, body = ''x'', reserved = True\<rparr> (fresh [])))
     = \<lparr>jid = 5, body = ''x'', reserved = True\<rparr>"
proof -
  have d: "fst (Job_delete \<lparr>jid = 5, body = ''x'', reserved = True\<rparr> (fresh (''NOT_FOUND'' @ CRLF)))
     = Inl (CommandFailed ''delete'' ''NOT_FOUND'' [])"
    by (simp add: eval_simps)
  have r: "fst (Job_release (PyInt 3) 0 \<lparr>jid = 5, body = ''x'', reserved = True\<rparr> (fresh (''FOO'' @ CRLF)))
     = Inl (UnexpectedResponse ''release'' ''FOO'' [])"
    by (simp add: eval_simps)
  have b: "fst (Job_bury (PyInt 3) \<lparr>jid = 5, body = ''x'', reserved = True\<rparr> (fresh []))
     = Inl SocketError"
    by (simp add: eval_simps)
  show ?thesis
    using d r b
      job_flag_kept_on_error [where j = "\<lparr>jid = 5, body = ''x'', reserved = True\<rparr>"
        and c = "fresh (''NOT_FOUND'' @ CRLF)" and e = "CommandFailed ''delete'' ''NOT_FOUND'' []"]
      job_flag_kept_on_error [where j = "\<lparr>jid = 5, body = ''x'', reserved = True\<rparr>"
        and p = "PyInt 3" and d = 0 and c = "fresh (''FOO'' @ CRLF)"
        and e = "UnexpectedResponse ''release'' ''FOO'' []"]
      job_flag_kept_on_error [where j = "\<lparr>jid = 5, body = ''x'', reserved = True\<rparr>"
        and p = "PyInt 3" and c = "fresh []" and e = "SocketError"]
    by blast
qed

subsection \<open>The interaction engine\<close>

lemma tick_reliable: "fuse c = None \<Longrightarrow> tick c = c"
  by (simp add: tick_def)

lemma tokens_word:
  "\<forall>ch\<in>set w. \<not> isspace ch \<Longrightarrow> tokens acc (w @ rest) = tokens (acc @ w) rest"
  by (induction w arbitrary: acc) simp_all

lemma py_split_word:
  assumes "w \<noteq> []" and "\<forall>ch\<in>set w. \<not> isspace ch" and "isspace sep"
  shows "py_split (w @ sep # rest) = w # py_split rest"
  using assms by (simp add: py_split_def tokens_word)

lemma py_split_Nil [simp]: "py_split [] = []"
  by (simp add: py_split_def)

lemma read_response_reply:
  assumes "fuse c = None" and "next_reply c = status # args"
  shows "read_response c = (Inr (status, args), c\<lparr>incoming := snd (line_of (incoming c))\<rparr>)"
proof -
  obtain l r where lr: "line_of (incoming c) = (l, r)"
    by (cases "line_of (incoming c)")
  with assms(2) have sp: "py_split l = status # args"
    by (simp add: next_reply_def)
  then have "l \<noteq> []"
    by auto
  then show ?thesis
    using assms(1) lr sp
    by (simp add: read_response_def bind_io_def readline_def return_io_def tick_def)
qed

lemma interact_reply:
  assumes "fuse c = None" and "next_reply c = status # args" and "verb_of command = Inr verb"
  shows "interact command oks errs c =
    (if status \<in> set oks then Inr args
     else if status \<in> set errs then Inl (CommandFailed verb status args)
     else Inl (UnexpectedResponse verb status args),
     c\<lparr>sent := sent c @ command, incoming := snd (line_of (incoming c))\<rparr>)"
proof -
  let ?c1 = "c\<lparr>sent := sent c @ command\<rparr>"
  have s: "sendall command c = (Inr (), ?c1)"
    using assms(1) by (simp add: sendall_def tick_def)
  have "fuse ?c1 = None" and "next_reply ?c1 = status # args"
    using assms by (simp_all add: next_reply_def)
  then have r: "read_response ?c1 = (Inr (status, args), ?c1\<lparr>incoming := snd (line_of (incoming ?c1))\<rparr>)"
    by (rule read_response_reply)
  show ?thesis
    by (simp add: interact_def bind_io_def s r assms(3) raise_io_def return_io_def)
qed




subsection \<open>\<^verbatim>\<open>reserve\<close>\<close>

lemma verb_of_reserve_command:
  "verb_of (reserve_command t) = Inr (case t of None \<Rightarrow> ''reserve'' | Some x \<Rightarrow> ''reserve-with-timeout'')"
  by (cases t) (simp_all add: reserve_command_def verb_of_def py_split_def isspace_def CRLF_def CR_def LF_def)

text \<open>
  C2: for \<^verbatim>\<open>reserve\<close> with or without a timeout, on a socket that does not fail: when the
  daemon answers \<^verbatim>\<open>TIMED_OUT\<close> the call returns \<^verbatim>\<open>None\<close>, and when it answers
  \<^verbatim>\<open>DEADLINE_SOON\<close> the call raises \<^verbatim>\<open>DeadlineSoon\<close> with the arguments of the answer.
\<close>

theorem reserve_timed_out_deadline_soon:
  assumes "fuse c = None"
  shows "(next_reply c = ''TIMED_OUT'' # args \<longrightarrow> fst (reserve timeout c) = Inr None)
    \<and> (next_reply c = ''DEADLINE_SOON'' # args \<longrightarrow>
          fst (reserve timeout c) = Inl (DeadlineSoon args))"
proof (intro conjI impI)
  assume n: "next_reply c = ''TIMED_OUT'' # args"
  show "fst (reserve timeout c) = Inr None"
    by (simp add: reserve_def catch_io_def bind_io_def interact_job_def
        interact_reply [OF assms n verb_of_reserve_command] reserve_handler_def return_io_def)
next
  assume n: "next_reply c = ''DEADLINE_SOON'' # args"
  show "fst (reserve timeout c) = Inl (DeadlineSoon args)"
    by (simp add: reserve_def catch_io_def bind_io_def interact_job_def
        interact_reply [OF assms n verb_of_reserve_command] reserve_handler_def raise_io_def)
qed

theorem reserve_timed_out_deadline_soon_witness:
  "fuse (fresh (''TIMED_OUT'' @ CRLF)) = None
   \<and> next_reply (fresh (''TIMED_OUT'' @ CRLF)) = [''TIMED_OUT'']
   \<and> fst (reserve (Some 0) (fresh (''TIMED_OUT'' @ CRLF))) = Inr None
   \<and> fuse (fresh (''DEADLINE_SOON 3'' @ CRLF)) = None
   \<and> next_reply (fresh (''DEADLINE_SOON 3'' @ CRLF)) = [''DEADLINE_SOON'', ''3'']
   \<and> fst (reserve None (fresh (''DEADLINE_SOON 3'' @ CRLF))) = Inl (DeadlineSoon [''3''])"
proof -
  have f: "fuse (fresh (''TIMED_OUT'' @ CRLF)) = None"
    and g: "fuse (fresh (''DEADLINE_SOON 3'' @ CRLF)) = None"
    by (simp_all add: fresh_def)
  have n: "next_reply (fresh (''TIMED_OUT'' @ CRLF)) = [''TIMED_OUT'']"
    and m: "next_reply (fresh (''DEADLINE_SOON 3'' @ CRLF)) = [''DEADLINE_SOON'', ''3'']"
    by (simp_all add: next_reply_def eval_simps)
  show ?thesis
    using f g n m
      reserve_timed_out_deadline_soon [OF f, of "[]" "Some 0"]
      reserve_timed_out_deadline_soon [OF g, of "[''3'']" None]
    by blast
qed

subsection \<open>\<^verbatim>\<open>ignore\<close> and the peek variants\<close>

lemma verb_of_literal:
  "verb_of (''ignore '' @ x) = Inr ''ignore''"
  "verb_of (''peek '' @ x) = Inr ''peek''"
  "verb_of (''peek-ready'' @ CRLF) = Inr ''peek-ready''"
  "verb_of (''peek-delayed'' @ CRLF) = Inr ''peek-delayed''"
  "verb_of (''peek-buried'' @ CRLF) = Inr ''peek-buried''"
  "verb_of (''delete '' @ x) = Inr ''delete''"
  by (simp_all add: verb_of_def py_split_def isspace_def CRLF_def CR_def LF_def split: list.splits)

text \<open>
  C8: for \<^verbatim>\<open>ignore\<close> of a tube name (a bytes object), on a socket that does not fail: when
  the daemon answers \<^verbatim>\<open>NOT_IGNORED\<close> the call raises nothing and returns 1; when it answers
  \<^verbatim>\<open>WATCHING\<close> the call returns the integer that the first argument of the answer, the
  count of watched tubes, reads as.
\<close>

theorem ignore_last_tube:
  assumes "fuse c = None"
  shows "(next_reply c = ''NOT_IGNORED'' # args \<longrightarrow> fst (ignore (PyBytes name) c) = Inr 1)
    \<and> (next_reply c = ''WATCHING'' # count # args \<longrightarrow> py_int count = Some n \<longrightarrow>
          fst (ignore (PyBytes name) c) = Inr n)"
proof (intro conjI impI)
  assume n: "next_reply c = ''NOT_IGNORED'' # args"
  show "fst (ignore (PyBytes name) c) = Inr 1"
    using interact_reply [OF assms n verb_of_literal(1), of "name @ CRLF" "[''WATCHING'']" "[''NOT_IGNORED'']"]
    by (simp add: ignore_def catch_io_def bind_io_def interact_value_def
        is_CommandFailed_def return_io_def)
next
  assume n: "next_reply c = ''WATCHING'' # count # args" and p: "py_int count = Some n"
  show "fst (ignore (PyBytes name) c) = Inr n"
    using interact_reply [OF assms n verb_of_literal(1), of "name @ CRLF" "[''WATCHING'']" "[''NOT_IGNORED'']"]
    by (simp add: ignore_def catch_io_def bind_io_def interact_value_def
        int_io_def p return_io_def)
qed





lemma read_body_reliable:
  assumes "fuse c = None" and "0 \<le> sz" and "sz = 0 \<or> incoming c \<noteq> []"
  shows "read_body sz c =
    (Inr (take (nat sz) (incoming c)), c\<lparr>incoming := drop 2 (drop (nat sz) (incoming c))\<rparr>)"
  using assms
  by (auto simp: read_body_def bind_io_def read_reliable tick_reliable return_io_def raise_io_def)



theorem ignore_last_tube_witness:
  "fuse (fresh (''NOT_IGNORED'' @ CRLF)) = None
   \<and> next_reply (fresh (''NOT_IGNORED'' @ CRLF)) = [''NOT_IGNORED'']
   \<and> fst (ignore (PyBytes ''jobs'') (fresh (''NOT_IGNORED'' @ CRLF))) = Inr 1
   \<and> fuse (fresh (''WATCHING 2'' @ CRLF)) = None
   \<and> next_reply (fresh (''WATCHING 2'' @ CRLF)) = [''WATCHING'', ''2'']
   \<and> py_int ''2'' = Some 2
   \<and> fst (ignore (PyBytes ''jobs'') (fresh (''WATCHING 2'' @ CRLF))) = Inr 2"
proof -
  have f: "fuse (fresh (''NOT_IGNORED'' @ CRLF)) = None"
    and g: "fuse (fresh (''WATCHING 2'' @ CRLF)) = None"
    by (simp_all add: fresh_def)
  have n: "next_reply (fresh (''NOT_IGNORED'' @ CRLF)) = [''NOT_IGNORED'']"
    and m: "next_reply (fresh (''WATCHING 2'' @ CRLF)) = [''WATCHING'', ''2'']"
    by (simp_all add: next_reply_def eval_simps)
  have p: "py_int ''2'' = Some 2"
    by (simp add: eval_simps)
  show ?thesis
    using f g n m p
      ignore_last_tube [OF f, where args = "[]" and name = "''jobs''"]
      ignore_last_tube [OF g, where args = "[]" and name = "''jobs''" and count = "''2''" and n = 2]
    by blast
qed



subsection \<open>After \<^verbatim>\<open>Job.delete\<close>\<close>

text \<open>
  C6, as the claim states it, fails for the second \<^verbatim>\<open>delete\<close>: \<^verbatim>\<open>Job.delete\<close> has no
  handler, so the \<^verbatim>\<open>CommandFailed\<close> that \<^verbatim>\<open>Connection.delete\<close> raises on a
  \<^verbatim>\<open>NOT_FOUND\<close> answer reaches the caller of the Job method.
\<close>

theorem second_delete_raises:
  "fst (Job_delete \<lparr>jid = 5, body = ''x'', reserved = True\<rparr>
          (fresh (''DELETED'' @ CRLF @ ''NOT_FOUND'' @ CRLF))) = Inr ()
   \<and> fst (Job_delete
          (fst (snd (Job_delete \<lparr>jid = 5, body = ''x'', reserved = True\<rparr>
             (fresh (''DELETED'' @ CRLF @ ''NOT_FOUND'' @ CRLF)))))
          (snd (snd (Job_delete \<lparr>jid = 5, body = ''x'', reserved = True\<rparr>
             (fresh (''DELETED'' @ CRLF @ ''NOT_FOUND'' @ CRLF))))))
       = Inl (CommandFailed ''delete'' ''NOT_FOUND'' [])"
  by (simp add: eval_simps)

lemma Job_delete_not_found:
  assumes "fuse c = None" and "next_reply c = ''NOT_FOUND'' # args"
  shows "fst (Job_delete j c) = Inl (CommandFailed ''delete'' ''NOT_FOUND'' args)"
  using interact_reply [OF assms verb_of_literal(6), of "show_int (jid j) @ CRLF"
      "[''DELETED'']" "[''NOT_FOUND'']"]
  by (simp add: Job_delete_def Connection_delete_def bind_io_def)

text \<open>
  C6, amended: once \<^verbatim>\<open>Job.delete\<close> has returned on a Job, \<^verbatim>\<open>release\<close>, \<^verbatim>\<open>bury\<close> and
  \<^verbatim>\<open>touch\<close> on that Job raise nothing and leave the Job and the connection as they are,
  in whatever state the connection is; a further \<^verbatim>\<open>delete\<close> delegates again, and on a
  socket that does not fail a \<^verbatim>\<open>NOT_FOUND\<close> answer reaches the caller as
  \<^verbatim>\<open>CommandFailed\<close> with (delete, NOT_FOUND, arguments).
\<close>

theorem after_delete:
  assumes "fst (Job_delete j c) = Inr ()" and "j' = fst (snd (Job_delete j c))"
  shows "Job_release p d j' c2 = (Inr (), j', c2)
    \<and> Job_bury p j' c2 = (Inr (), j', c2)
    \<and> Job_touch j' c2 = (Inr (), j', c2)
    \<and> (fuse c2 = None \<longrightarrow> next_reply c2 = ''NOT_FOUND'' # args \<longrightarrow>
          fst (Job_delete j' c2) = Inl (CommandFailed ''delete'' ''NOT_FOUND'' args))"
proof -
  have "j' = j\<lparr>reserved := False\<rparr>"
    using assms job_flag_cleared_on_success(1) [of j c "()"] by simp
  then have n: "\<not> reserved j'"
    by simp
  show ?thesis
    using n Job_delete_not_found [of c2 args j']
    by (simp add: Job_release_def Job_bury_def Job_touch_def)
qed

theorem after_delete_witness:
  "fst (Job_delete \<lparr>jid = 5, body = ''x'', reserved = True\<rparr> (fresh (''DELETED'' @ CRLF))) = Inr ()
   \<and> \<lparr>jid = 5, body = ''x'', reserved = False\<rparr>
       = fst (snd (Job_delete \<lparr>jid = 5, body = ''x'', reserved = True\<rparr> (fresh (''DELETED'' @ CRLF))))
   \<and> fuse (fresh (''NOT_FOUND'' @ CRLF)) = None
   \<and> next_reply (fresh (''NOT_FOUND'' @ CRLF)) = [''NOT_FOUND'']
   \<and> Job_release PyNone 0 \<lparr>jid = 5, body = ''x'', reserved = False\<rparr> (fresh (''NOT_FOUND'' @ CRLF))
       = (Inr (), \<lparr>jid = 5, body = ''x'', reserved = False\<rparr>, fresh (''NOT_FOUND'' @ CRLF))
   \<and> fst (Job_delete \<lparr>jid = 5, body = ''x'', reserved = False\<rparr> (fresh (''NOT_FOUND'' @ CRLF)))
       = Inl (CommandFailed ''delete'' ''NOT_FOUND'' [])"
proof -
  have a: "fst (Job_delete \<lparr>jid = 5, body = ''x'', reserved = True\<rparr> (fresh (''DELETED'' @ CRLF))) = Inr ()"
    by (simp add: eval_simps)
  have b: "\<lparr>jid = 5, body = ''x'', reserved = False\<rparr>
       = fst (snd (Job_delete \<lparr>jid = 5, body = ''x'', reserved = True\<rparr> (fresh (''DELETED'' @ CRLF))))"
    by (simp add: eval_simps)
  have f: "fuse (fresh (''NOT_FOUND'' @ CRLF)) = None"
    by (simp add: fresh_def)
  have n: "next_reply (fresh (''NOT_FOUND'' @ CRLF)) = [''NOT_FOUND'']"
    by (simp add: next_reply_def eval_simps)
  note t = after_delete [OF a b, where ?c2.0 = "fresh (''NOT_FOUND'' @ CRLF)" and args = "[]"
      and p = PyNone and d = 0]
  show ?thesis
    using a b f n t by blast
qed

subsection \<open>The priority that \<^verbatim>\<open>Job.release\<close> and \<^verbatim>\<open>Job.bury\<close> send\<close>

text \<open>
  C7 at the priority 0, supplied by the caller, on a reserved Job and a connection with
  the identity decoder: \<^verbatim>\<open>priority or self._priority()\<close> takes 0 for an omitted
  priority, so the stats lookup is made and the command carries the priority that the
  lookup gives (here the default, 2147483648), not the 0 that was given. The lemmas after
  the theorem are the cases in which the claim holds: a priority other than 0 is sent as
  given, without a lookup.
\<close>

theorem release_priority_zero:
  "sent (snd (snd (Job_release (PyInt 0) 0 \<lparr>jid = 5, body = ''x'', reserved = True\<rparr>
      (fresh (''OK 3'' @ CRLF @ ''abc'' @ CRLF @ ''RELEASED'' @ CRLF)))))
     = ''stats-job 5'' @ CRLF @ ''release 5 2147483648 0'' @ CRLF
   \<and> sent (snd (snd (Job_bury (PyInt 0) \<lparr>jid = 5, body = ''x'', reserved = True\<rparr>
      (fresh (''OK 3'' @ CRLF @ ''abc'' @ CRLF @ ''BURIED'' @ CRLF)))))
     = ''stats-job 5'' @ CRLF @ ''bury 5 2147483648'' @ CRLF"
  by (simp add: eval_simps)

lemma priority_or_cases:
  "priority_or PyNone j = Job_priority j"
  "priority_or (PyInt 0) j = Job_priority j"
  "p \<noteq> 0 \<Longrightarrow> priority_or (PyInt p) j = return_io (PyInt p)"
  by (simp_all add: priority_or_def)

lemma verb_of_release: "verb_of (''release '' @ x) = Inr ''release''"
  and verb_of_bury: "verb_of (''bury '' @ x) = Inr ''bury''"
  by (simp_all add: verb_of_def py_split_def isspace_def split: list.splits)

lemma Job_release_given_priority:
  assumes "reserved j" and "p \<noteq> 0" and "fuse c = None" and "next_reply c = ''RELEASED'' # args"
  shows "Job_release (PyInt p) d j c =
    (Inr (), j\<lparr>reserved := False\<rparr>,
     c\<lparr>sent := sent c @ ''release '' @ show_int (jid j) @ '' '' @ show_int p @ '' ''
               @ show_int d @ CRLF,
       incoming := snd (line_of (incoming c))\<rparr>)"
  using assms(1,2)
    interact_reply [OF assms(3,4) verb_of_release,
      of "show_int (jid j) @ '' '' @ show_int p @ '' '' @ show_int d @ CRLF"
      "[''RELEASED'', ''BURIED'']" "[''NOT_FOUND'']"]
  by (simp add: Job_release_def priority_or_def bind_io_def return_io_def Connection_release_def)

lemma Job_bury_given_priority:
  assumes "reserved j" and "p \<noteq> 0" and "fuse c = None" and "next_reply c = ''BURIED'' # args"
  shows "Job_bury (PyInt p) j c =
    (Inr (), j\<lparr>reserved := False\<rparr>,
     c\<lparr>sent := sent c @ ''bury '' @ show_int (jid j) @ '' '' @ show_int p @ CRLF,
       incoming := snd (line_of (incoming c))\<rparr>)"
  using assms(1,2)
    interact_reply [OF assms(3,4) verb_of_bury,
      of "show_int (jid j) @ '' '' @ show_int p @ CRLF" "[''BURIED'']" "[''NOT_FOUND'']"]
  by (simp add: Job_bury_def priority_or_def bind_io_def return_io_def Connection_bury_def)

subsection \<open>Printing and reading decimal numbers\<close>

lemma isdigit_digit_char: "d < 10 \<Longrightarrow> isdigit (digit_char d)"
  by (simp add: isdigit_def digit_char_def)

lemma digit_val_digit_char: "d < 10 \<Longrightarrow> digit_val (digit_char d) = d"
  by (simp add: digit_val_def digit_char_def)

lemma isdigit_not_isspace: "isdigit ch \<Longrightarrow> \<not> isspace ch"
  by (auto simp: isdigit_def isspace_def)

lemma show_nat_digits: "\<forall>ch\<in>set (show_nat n). isdigit ch"
proof (induction n rule: show_nat.induct)
  case (1 n)
  show ?case
  proof (cases "n < 10")
    case True
    then show ?thesis
      by (simp add: show_nat.simps [of n] isdigit_digit_char)
  next
    case False
    with "1" show ?thesis
      by (simp add: show_nat.simps [of n] isdigit_digit_char)
  qed
qed

lemma show_nat_not_Nil: "show_nat n \<noteq> []"
  by (simp add: show_nat.simps [of n])

lemma int_digits_all_digits:
  "\<forall>ch\<in>set ds. isdigit ch \<Longrightarrow> ds \<noteq> [] \<or> d \<Longrightarrow>
   int_digits d acc ds = Some (foldl (\<lambda>a ch. 10 * a + digit_val ch) acc ds)"
  by (induction ds arbitrary: d acc) auto

lemma digits_value_show_nat:
  "foldl (\<lambda>a ch. 10 * a + digit_val ch) 0 (show_nat n) = n"
proof (induction n rule: show_nat.induct)
  case (1 n)
  show ?case
  proof (cases "n < 10")
    case True
    then show ?thesis
      by (simp add: show_nat.simps [of n] digit_val_digit_char)
  next
    case False
    with "1" have "foldl (\<lambda>a ch. 10 * a + digit_val ch) 0 (show_nat (n div 10)) = n div 10"
      by simp
    then show ?thesis
      using False
      by (simp add: show_nat.simps [of n] digit_val_digit_char)
  qed
qed

lemma int_digits_show_nat: "int_digits False 0 (show_nat n) = Some n"
  using int_digits_all_digits [OF show_nat_digits, of n False 0]
  by (simp add: show_nat_not_Nil digits_value_show_nat)

lemma show_int_nospace: "\<forall>ch\<in>set (show_int i). \<not> isspace ch"
  using show_nat_digits isdigit_not_isspace
  by (auto simp: show_int_def isspace_def)

lemma show_int_not_Nil: "show_int i \<noteq> []"
  by (simp add: show_int_def show_nat_not_Nil)

lemma strip_nospace: "\<forall>ch\<in>set s. \<not> isspace ch \<Longrightarrow> strip s = s"
proof -
  assume a: "\<forall>ch\<in>set s. \<not> isspace ch"
  have d: "\<And>xs. \<forall>ch\<in>set xs. \<not> isspace ch \<Longrightarrow> dropWhile isspace xs = xs"
    by (case_tac xs) auto
  from a show ?thesis
    by (simp add: strip_def d)
qed

lemma py_int_show_int: "py_int (show_int i) = Some i"
proof (cases "i < 0")
  case True
  have "strip (show_int i) = CHR ''-'' # show_nat (nat (- i))"
    using strip_nospace [OF show_int_nospace, of i] True by (simp add: show_int_def)
  then show ?thesis
    using True by (simp add: py_int_def int_digits_show_nat)
next
  case False
  obtain ch cs where s: "show_nat (nat i) = ch # cs"
    using show_nat_not_Nil [of "nat i"] by (cases "show_nat (nat i)") auto
  have "isdigit ch"
    using show_nat_digits [of "nat i"] s by simp
  then have n: "ch \<noteq> CHR ''-''" "ch \<noteq> CHR ''+''"
    by (auto simp: isdigit_def)
  have "strip (show_int i) = ch # cs"
    using strip_nospace [OF show_int_nospace, of i] False s by (simp add: show_int_def)
  then show ?thesis
    using False n int_digits_show_nat [of "nat i"] s by (simp add: py_int_def)
qed


subsection \<open>Lines and fields on the wire\<close>

lemma line_of_header: "LF \<notin> set h \<Longrightarrow> line_of (h @ LF # r) = (h @ [LF], r)"
  by (induction h) auto

lemma line_of_CRLF: "LF \<notin> set h \<Longrightarrow> line_of (h @ CRLF @ r) = (h @ CRLF, r)"
proof -
  assume a: "LF \<notin> set h"
  have "CR \<noteq> LF"
    by (simp add: CR_def LF_def)
  with a have "LF \<notin> set (h @ [CR])"
    by simp
  from line_of_header [OF this, of r] show ?thesis
    by (simp add: CRLF_def)
qed

lemma not_isspace_not_LF: "\<not> isspace ch \<Longrightarrow> ch \<noteq> LF"
  by (auto simp: isspace_def LF_def)

lemma isspace_literals [simp]: "isspace CHR '' ''" "isspace CR" "isspace LF"
  by (simp_all add: isspace_def CR_def LF_def)

lemma tokens_field:
  assumes "w \<noteq> []" and "\<forall>ch\<in>set w. \<not> isspace ch" and "isspace sep"
  shows "tokens [] (w @ sep # rest) = w # tokens [] rest"
  using assms by (simp add: tokens_word)

lemma tokens_show_int [simp]:
  "isspace sep \<Longrightarrow> tokens [] (show_int i @ sep # rest) = show_int i # tokens [] rest"
  by (rule tokens_field [OF show_int_not_Nil show_int_nospace])

lemma LF_notin_show_int [simp]: "LF \<notin> set (show_int i)"
  using show_int_nospace [of i] not_isspace_not_LF by blast

lemma next_reply_inserted:
  assumes "incoming c = ''INSERTED '' @ show_int n @ CRLF @ tl_bytes"
  shows "next_reply c = [''INSERTED'', show_int n]"
    and "snd (line_of (incoming c)) = tl_bytes"
proof -
  have "LF \<notin> set ''INSERTED ''"
    by (simp add: LF_def)
  then have "LF \<notin> set (''INSERTED '' @ show_int n)"
    by (simp only: set_append Un_iff LF_notin_show_int simp_thms)
  from line_of_CRLF [OF this, of tl_bytes]
  have l: "line_of (incoming c) = ((''INSERTED '' @ show_int n) @ CRLF, tl_bytes)"
    by (simp only: assms append_assoc)
  show "snd (line_of (incoming c)) = tl_bytes"
    by (simp add: l)
  have "py_split ((''INSERTED '' @ show_int n) @ CRLF) = [''INSERTED'', show_int n]"
    by (simp add: py_split_def CRLF_def isspace_def [of "CHR ''I''"] isspace_def [of "CHR ''N''"]
        isspace_def [of "CHR ''S''"] isspace_def [of "CHR ''E''"] isspace_def [of "CHR ''R''"]
        isspace_def [of "CHR ''T''"] isspace_def [of "CHR ''D''"])
  then show "next_reply c = [''INSERTED'', show_int n]"
    by (simp add: next_reply_def l)
qed

lemma next_reply_reserved:
  assumes "incoming c = ''RESERVED '' @ show_int n @ '' '' @ show_int k @ CRLF @ tl_bytes"
  shows "next_reply c = [''RESERVED'', show_int n, show_int k]"
    and "snd (line_of (incoming c)) = tl_bytes"
proof -
  have "LF \<notin> set ''RESERVED ''" and "LF \<notin> set '' ''"
    by (simp_all add: LF_def)
  then have "LF \<notin> set (''RESERVED '' @ show_int n @ '' '' @ show_int k)"
    by (simp only: set_append Un_iff LF_notin_show_int simp_thms)
  from line_of_CRLF [OF this, of tl_bytes]
  have l: "line_of (incoming c) =
      ((''RESERVED '' @ show_int n @ '' '' @ show_int k) @ CRLF, tl_bytes)"
    by (simp only: assms append_assoc)
  show "snd (line_of (incoming c)) = tl_bytes"
    by (simp add: l)
  have "py_split ((''RESERVED '' @ show_int n @ '' '' @ show_int k) @ CRLF)
      = [''RESERVED'', show_int n, show_int k]"
    by (simp add: py_split_def CRLF_def isspace_def [of "CHR ''I''"] isspace_def [of "CHR ''V''"]
        isspace_def [of "CHR ''S''"] isspace_def [of "CHR ''E''"] isspace_def [of "CHR ''R''"]
        isspace_def [of "CHR ''D''"])
  then show "next_reply c = [''RESERVED'', show_int n, show_int k]"
    by (simp add: next_reply_def l)
qed


subsection \<open>The round trip of a body\<close>

lemma interact_job_reply:
  assumes "fuse c = None" and "next_reply c = [status, a, n]" and "status \<in> set oks"
    and "verb_of command = Inr v" and "py_int a = Some k" and "py_int n = Some sz"
    and "0 \<le> sz" and "sz = 0 \<or> snd (line_of (incoming c)) \<noteq> []"
  shows "interact_job command oks errs rsv c =
    (Inr \<lparr>jid = k, body = take (nat sz) (snd (line_of (incoming c))), reserved = rsv\<rparr>,
     c\<lparr>sent := sent c @ command,
       incoming := drop 2 (drop (nat sz) (snd (line_of (incoming c))))\<rparr>)"
proof -
  let ?c1 = "c\<lparr>sent := sent c @ command, incoming := snd (line_of (incoming c))\<rparr>"
  have b: "read_body sz ?c1 =
    (Inr (take (nat sz) (incoming ?c1)), ?c1\<lparr>incoming := drop 2 (drop (nat sz) (incoming ?c1))\<rparr>)"
    using assms(1,7,8) by (intro read_body_reliable) simp_all
  show ?thesis
    using b assms(3)
    by (simp add: bind_io_def interact_job_def interact_reply [OF assms(1,2,4)] int_io_def
        assms(5,6) return_io_def)
qed

lemma verb_of_put: "verb_of (''put '' @ x) = Inr ''put''"
  by (simp add: verb_of_def py_split_def isspace_def split: list.splits)

lemma daemon_put_body_frame:
  "daemon_put_body (''put '' @ show_int pri @ '' '' @ show_int delay @ '' '' @ show_int ttr
      @ '' '' @ show_int (int (length b)) @ CRLF @ b @ CRLF) = Some b"
proof -
  let ?h = "''put '' @ show_int pri @ '' '' @ show_int delay @ '' '' @ show_int ttr
      @ '' '' @ show_int (int (length b))"
  have "LF \<notin> set ''put ''" and "LF \<notin> set '' ''"
    by (simp_all add: LF_def)
  then have "LF \<notin> set ?h"
    by (simp only: set_append Un_iff LF_notin_show_int simp_thms)
  from line_of_CRLF [OF this, of "b @ CRLF"]
  have l: "line_of (?h @ CRLF @ b @ CRLF) = (?h @ CRLF, b @ CRLF)" .
  have t: "py_split (?h @ CRLF) =
      [''put'', show_int pri, show_int delay, show_int ttr, show_int (int (length b))]"
    by (simp add: py_split_def CRLF_def isspace_def [of "CHR ''p''"] isspace_def [of "CHR ''u''"]
        isspace_def [of "CHR ''t''"])
  have "daemon_put_body (?h @ CRLF @ b @ CRLF) = Some b"
    unfolding daemon_put_body_def l using t by (simp add: py_int_show_int)
  then show ?thesis
    by (simp only: append_assoc)
qed


text \<open>
  C4: for every body \<open>b\<close>, whatever bytes it holds, and every priority, delay and time to
  run: on a socket that does not fail, \<^verbatim>\<open>put\<close> sends the frame that declares the length
  of \<open>b\<close> and carries \<open>b\<close> unchanged, from which the daemon takes out exactly \<open>b\<close>; and
  when the daemon answers faithfully (it acknowledges with an id and, on the following
  \<^verbatim>\<open>reserve\<close>, returns what it stored), \<^verbatim>\<open>put\<close> returns that id and \<^verbatim>\<open>reserve\<close>, with
  or without a timeout, returns the Job of that id whose body is \<open>b\<close>, leaving the stream
  at the first byte after the answer.
\<close>

theorem put_reserve_roundtrip:
  assumes "fuse c = None"
    and "frame = ''put '' @ show_int pri @ '' '' @ show_int delay @ '' '' @ show_int ttr
          @ '' '' @ show_int (int (length b)) @ CRLF @ b @ CRLF"
    and "incoming c = faithful_daemon frame i @ rest"
  shows "fst (put (PyBytes b) pri delay ttr c) = Inr i
    \<and> sent (snd (put (PyBytes b) pri delay ttr c)) = sent c @ frame
    \<and> daemon_put_body frame = Some b
    \<and> fst (reserve timeout (snd (put (PyBytes b) pri delay ttr c)))
        = Inr (Some \<lparr>jid = i, body = b, reserved = True\<rparr>)
    \<and> incoming (snd (reserve timeout (snd (put (PyBytes b) pri delay ttr c)))) = rest"
proof -
  define reply where "reply = ''RESERVED '' @ show_int i @ '' '' @ show_int (int (length b)) @ CRLF
      @ (b @ CRLF @ rest)"
  define c1 where "c1 = c\<lparr>sent := sent c @ frame, incoming := reply\<rparr>"
  have d: "daemon_put_body frame = Some b"
    unfolding assms(2) by (rule daemon_put_body_frame)
  have inc: "incoming c = ''INSERTED '' @ show_int i @ CRLF @ reply"
    by (simp add: assms(3) faithful_daemon_def d reply_def)
  have v: "verb_of frame = Inr ''put''"
    unfolding assms(2) by (rule verb_of_put)
  have p: "put (PyBytes b) pri delay ttr =
      bind_io (interact_value frame [''INSERTED''] [''JOB_TOO_BIG'', ''BURIED'', ''DRAINING''])
        int_io"
    by (simp only: put_def pyval.case assms(2))
  have put: "put (PyBytes b) pri delay ttr c = (Inr i, c1)"
    unfolding p c1_def
    by (simp add: bind_io_def interact_value_def
        interact_reply [OF assms(1) next_reply_inserted(1) [OF inc] v]
        next_reply_inserted(2) [OF inc] return_io_def int_io_def py_int_show_int)
  have f1: "fuse c1 = None"
    using assms(1) by (simp add: c1_def)
  have ir: "incoming c1 = reply"
    by (simp add: c1_def)
  have inc1: "incoming c1 = ''RESERVED '' @ show_int i @ '' '' @ show_int (int (length b)) @ CRLF
      @ (b @ CRLF @ rest)"
    by (simp only: ir reply_def)
  note nr = next_reply_reserved(1) [OF inc1]
  note sl = next_reply_reserved(2) [OF inc1]
  have w: "verb_of (reserve_command timeout) = Inr (case timeout of None \<Rightarrow> ''reserve''
      | Some x \<Rightarrow> ''reserve-with-timeout'')"
    by (rule verb_of_reserve_command)
  have ne: "int (length b) = 0 \<or> snd (line_of (incoming c1)) \<noteq> []"
    unfolding sl by (simp add: CRLF_def)
  have ok: "''RESERVED'' \<in> set [''RESERVED'']" and nn: "0 \<le> int (length b)"
    by simp_all
  have job: "interact_job (reserve_command timeout) [''RESERVED'']
      [''DEADLINE_SOON'', ''TIMED_OUT''] True c1 =
      (Inr \<lparr>jid = i, body = b, reserved = True\<rparr>,
       c1\<lparr>sent := sent c1 @ reserve_command timeout, incoming := rest\<rparr>)"
    using interact_job_reply [OF f1 nr ok w py_int_show_int py_int_show_int nn ne,
        of "[''DEADLINE_SOON'', ''TIMED_OUT'']" True]
    unfolding sl by (simp add: CRLF_def)
  have res: "reserve timeout c1 =
      (Inr (Some \<lparr>jid = i, body = b, reserved = True\<rparr>),
       c1\<lparr>sent := sent c1 @ reserve_command timeout, incoming := rest\<rparr>)"
    by (simp add: reserve_def catch_io_def bind_io_def job return_io_def)
  have s1: "sent c1 = sent c @ frame"
    by (simp add: c1_def)
  show ?thesis
    by (simp add: put res d s1)
qed

theorem put_reserve_roundtrip_witness:
  "fuse (fresh (faithful_daemon (''put 1 0 120 4'' @ CRLF @ ''a'' @ CRLF @ ''b'' @ CRLF) 7 @ ''x'')) = None
   \<and> ''put 1 0 120 4'' @ CRLF @ ''a'' @ CRLF @ ''b'' @ CRLF
       = ''put '' @ show_int 1 @ '' '' @ show_int 0 @ '' '' @ show_int 120
          @ '' '' @ show_int (int (length (''a'' @ CRLF @ ''b''))) @ CRLF @ (''a'' @ CRLF @ ''b'') @ CRLF
   \<and> fst (reserve None (snd (put (PyBytes (''a'' @ CRLF @ ''b'')) 1 0 120
        (fresh (faithful_daemon (''put 1 0 120 4'' @ CRLF @ ''a'' @ CRLF @ ''b'' @ CRLF) 7 @ ''x'')))))
       = Inr (Some \<lparr>jid = 7, body = ''a'' @ CRLF @ ''b'', reserved = True\<rparr>)"
proof -
  have f: "fuse (fresh (faithful_daemon (''put 1 0 120 4'' @ CRLF @ ''a'' @ CRLF @ ''b'' @ CRLF) 7 @ ''x'')) = None"
    by (simp add: fresh_def)
  have e: "''put 1 0 120 4'' @ CRLF @ ''a'' @ CRLF @ ''b'' @ CRLF
       = ''put '' @ show_int 1 @ '' '' @ show_int 0 @ '' '' @ show_int 120
          @ '' '' @ show_int (int (length (''a'' @ CRLF @ ''b''))) @ CRLF @ (''a'' @ CRLF @ ''b'') @ CRLF"
    by (simp add: show_int_def show_nat.simps digit_char_values CRLF_def)
  have i: "incoming (fresh (faithful_daemon (''put 1 0 120 4'' @ CRLF @ ''a'' @ CRLF @ ''b'' @ CRLF) 7 @ ''x''))
      = faithful_daemon (''put 1 0 120 4'' @ CRLF @ ''a'' @ CRLF @ ''b'' @ CRLF) 7 @ ''x''"
    by (simp add: fresh_def)
  note t = put_reserve_roundtrip [OF f e i, where timeout = None]
  show ?thesis
    using f e t by blast
qed

end
